theory Spec2Isabelle
  imports Complex_Main "HOL-Library.Multiset"
begin

section \<open>Conventions of the embedding\<close>

text \<open>
  The program is Python. Its floating-point numbers are modelled by \<^typ>\<open>real\<close>: the
  properties below are about control flow, error handling and state, not about rounding.
  Integers are \<^typ>\<open>int\<close>. A function that can raise returns \<open>py_error + 'a\<close>, with
  \<open>Inl\<close> the exception. Methods keep their names; a leading underscore is dropped
  (\<open>_local_to_utc\<close> is \<open>local_to_utc\<close>), and \<open>self\<close> is the first argument.
\<close>

datatype py_error =
    ValueError string
  | ZeroDivisionError
  | AttributeError
  | KeyError
  | NotImplementedError
  | GEOSException
  | NetworkXNoPath
  | NodeNotFound

section \<open>sun\_calculator.py\<close>

subsection \<open>Dates and times of the standard library\<close>

record py_date =
  year :: int
  month :: int
  day :: int

record py_time =
  hour :: int
  minute :: int

record py_datetime =
  dt_year :: int
  dt_month :: int
  dt_day :: int
  dt_hour :: int
  dt_minute :: int

definition is_leap :: "int \<Rightarrow> bool" where
  "is_leap y = (y mod 4 = 0 \<and> (y mod 100 \<noteq> 0 \<or> y mod 400 = 0))"

definition days_in_month :: "int \<Rightarrow> int \<Rightarrow> int" where
  "days_in_month y m =
     (if m = 2 then (if is_leap y then 29 else 28)
      else if m = 4 \<or> m = 6 \<or> m = 9 \<or> m = 11 then 30 else 31)"

text \<open>The values a \<open>datetime.date\<close> and a \<open>datetime.time\<close> object can hold.\<close>

definition valid_date :: "py_date \<Rightarrow> bool" where
  "valid_date d =
     (1 \<le> year d \<and> year d \<le> 9999 \<and> 1 \<le> month d \<and> month d \<le> 12 \<and>
      1 \<le> day d \<and> day d \<le> days_in_month (year d) (month d))"

definition valid_time :: "py_time \<Rightarrow> bool" where
  "valid_time t = (0 \<le> hour t \<and> hour t \<le> 23 \<and> 0 \<le> minute t \<and> minute t \<le> 59)"

text \<open>\<open>datetime.combine(date, time)\<close>.\<close>

definition combine :: "py_date \<Rightarrow> py_time \<Rightarrow> py_datetime" where
  "combine d t =
     \<lparr>dt_year = year d, dt_month = month d, dt_day = day d,
      dt_hour = hour t, dt_minute = minute t\<rparr>"

text \<open>
  \<open>datetime.replace(hour=h)\<close> builds a new datetime from the old fields and the new
  hour, and the constructor refuses an hour outside 0..23 with
  \<open>ValueError('hour must be in 0..23')\<close>; it never carries into the day.
\<close>

definition replace_hour :: "py_datetime \<Rightarrow> int \<Rightarrow> py_error + py_datetime" where
  "replace_hour dt h =
     (if 0 \<le> h \<and> h \<le> 23 then Inr (dt\<lparr>dt_hour := h\<rparr>)
      else Inl (ValueError ''hour must be in 0..23''))"

text \<open>\<open>timetuple().tm_yday\<close>: the day of the year, 1 for January 1st.\<close>

fun days_before_month :: "int \<Rightarrow> nat \<Rightarrow> int" where
  "days_before_month y 0 = 0"
| "days_before_month y (Suc 0) = 0"
| "days_before_month y (Suc (Suc m)) =
     days_before_month y (Suc m) + days_in_month y (int (Suc m))"

definition tm_yday :: "py_datetime \<Rightarrow> int" where
  "tm_yday dt = days_before_month (dt_year dt) (nat (dt_month dt)) + dt_day dt"

subsection \<open>The \<open>math\<close> module\<close>

definition radians :: "real \<Rightarrow> real" where
  "radians x = x * pi / 180"

definition degrees :: "real \<Rightarrow> real" where
  "degrees x = x * 180 / pi"

text \<open>Python's \<open>/\<close> on numbers raises \<open>ZeroDivisionError\<close> on a zero divisor.\<close>

definition py_div :: "real \<Rightarrow> real \<Rightarrow> py_error + real" where
  "py_div a b = (if b = 0 then Inl ZeroDivisionError else Inr (a / b))"

subsection \<open>class SunCalculator\<close>

record sun_calculator =
  latitude :: real
  longitude :: real
  latitude_rad :: real
  timezone_offset :: int

text \<open>\<open>SunCalculator.__init__\<close>; the defaults are New York's 40.7128 and -74.0060.\<close>

definition SunCalculator :: "real \<Rightarrow> real \<Rightarrow> sun_calculator" where
  "SunCalculator lat lon =
     \<lparr>latitude = lat, longitude = lon, latitude_rad = radians lat, timezone_offset = - 5\<rparr>"

definition local_to_utc :: "sun_calculator \<Rightarrow> py_date \<Rightarrow> py_time \<Rightarrow> py_error + py_datetime" where
  "local_to_utc self local_date local_time =
     (let local_datetime = combine local_date local_time
      in replace_hour local_datetime (dt_hour local_datetime - timezone_offset self))"

definition calculate_declination :: "int \<Rightarrow> real" where
  "calculate_declination day_of_year =
     23.45 * sin (radians (real_of_int (360 * (284 + day_of_year)) / 365))"

definition calculate_hour_angle :: "py_datetime \<Rightarrow> real" where
  "calculate_hour_angle utc_time =
     (let hour = real_of_int (dt_hour utc_time) + real_of_int (dt_minute utc_time) / 60.0
      in 15 * (hour - 12))"

definition calculate_elevation :: "sun_calculator \<Rightarrow> real \<Rightarrow> real \<Rightarrow> real" where
  "calculate_elevation self declination hour_angle =
     (let declination_rad = radians declination;
          hour_angle_rad = radians hour_angle;
          sin_elevation = sin (latitude_rad self) * sin declination_rad +
                          cos (latitude_rad self) * cos declination_rad * cos hour_angle_rad
      in degrees (arcsin (max (- 1) (min 1 sin_elevation))))"

text \<open>
  The quotient by \<open>cos(elevation_rad)\<close> is a Python division: over the reals the
  cosine is zero at an elevation of exactly 90 degrees, where the model raises.
\<close>

definition calculate_azimuth :: "sun_calculator \<Rightarrow> real \<Rightarrow> real \<Rightarrow> real \<Rightarrow> py_error + real" where
  "calculate_azimuth self declination hour_angle elevation =
     (if elevation \<le> 0 then Inr 0
      else
        let declination_rad = radians declination;
            hour_angle_rad = radians hour_angle;
            elevation_rad = radians elevation
        in (case py_div (sin declination_rad * cos (latitude_rad self) -
                         cos declination_rad * sin (latitude_rad self) * cos hour_angle_rad)
                        (cos elevation_rad) of
              Inl e \<Rightarrow> Inl e
            | Inr q \<Rightarrow>
                let cos_azimuth = max (- 1) (min 1 q);
                    azimuth = degrees (arccos cos_azimuth)
                in Inr (if hour_angle > 0 then 360 - azimuth else azimuth)))"

text \<open>The dictionary \<open>calculate_sun_position\<close> returns.\<close>

record sun_position =
  elevation :: real
  azimuth :: real
  declination :: real
  hour_angle :: real

text \<open>
  \<open>calculate_sun_position\<close>: the \<open>except\<close> clause logs and re-raises, so an
  exception of a step is the exception of the call.
\<close>

definition calculate_sun_position ::
  "sun_calculator \<Rightarrow> py_date \<Rightarrow> py_time \<Rightarrow> py_error + sun_position" where
  "calculate_sun_position self date time_of_day =
     (case local_to_utc self date time_of_day of
        Inl e \<Rightarrow> Inl e
      | Inr utc_time \<Rightarrow>
          let day_of_year = tm_yday utc_time;
              declination' = calculate_declination day_of_year;
              hour_angle' = calculate_hour_angle utc_time;
              elevation' = calculate_elevation self declination' hour_angle'
          in (case calculate_azimuth self declination' hour_angle' elevation' of
                Inl e \<Rightarrow> Inl e
              | Inr azimuth' \<Rightarrow>
                  Inr \<lparr>elevation = elevation', azimuth = azimuth',
                       declination = declination', hour_angle = hour_angle'\<rparr>))"

subsection \<open>The geometry library\<close>

text \<open>
  Footprints, street lines, tree points, buffers and shadows are objects of the shapely
  library, which is not part of the repository. The model keeps them abstract: a geometry
  is a value of a type \<open>'g\<close>, and the library is a record of the operations the program
  calls on it. Every operation that computes a geometry, a predicate or an area may raise
  (the program wraps each use in \<open>try\<close>). \<open>Polygon_empty\<close> is \<open>Polygon()\<close>.
\<close>

record 'g shapely =
  Polygon_empty :: "'g"
  translate :: "'g \<Rightarrow> real \<Rightarrow> real \<Rightarrow> py_error + 'g"
  unary_union :: "'g list \<Rightarrow> py_error + 'g"
  buffer :: "'g \<Rightarrow> real \<Rightarrow> py_error + 'g"
  intersects :: "'g \<Rightarrow> 'g \<Rightarrow> py_error + bool"
  intersection :: "'g \<Rightarrow> 'g \<Rightarrow> py_error + 'g"
  area :: "'g \<Rightarrow> py_error + real"
  is_valid :: "'g \<Rightarrow> bool"
  is_empty_geom :: "'g \<Rightarrow> bool"
  coords :: "'g \<Rightarrow> py_error + (real \<times> real) list"

text \<open>An area that the library returns is never negative.\<close>

definition areas_nonnegative :: "'g shapely \<Rightarrow> bool" where
  "areas_nonnegative L = (\<forall>g a. area L g = Inr a \<longrightarrow> 0 \<le> a)"

text \<open>Sequencing of calls that may raise: the first exception ends the block.\<close>

definition and_then :: "py_error + 'a \<Rightarrow> ('a \<Rightarrow> py_error + 'b) \<Rightarrow> py_error + 'b" where
  "and_then r f = (case r of Inl e \<Rightarrow> Inl e | Inr v \<Rightarrow> f v)"

subsection \<open>Shadow projection and street shade\<close>

text \<open>
  \<open>calculate_shade_projection\<close> (it does not read \<open>self\<close>). Its \<open>except\<close> clause
  returns \<open>Polygon()\<close> for every exception of the body: the division by a zero tangent,
  the call of \<open>translate\<close> and the call of \<open>unary_union\<close>. (Over the reals the tangent has
  poles at odd multiples of 90 degrees, where \<^const>\<open>tan\<close> is 0 and the model takes the
  branch of the division error.)
\<close>

definition calculate_shade_projection ::
  "'g shapely \<Rightarrow> 'g \<Rightarrow> real \<Rightarrow> sun_position \<Rightarrow> 'g" where
  "calculate_shade_projection L building_geometry building_height sun =
     (let elevation' = elevation sun;
          azimuth' = azimuth sun
      in if elevation' \<le> 0 then Polygon_empty L
         else
           (case py_div building_height (tan (radians elevation')) of
              Inl e \<Rightarrow> Polygon_empty L
            | Inr shadow_length \<Rightarrow>
                let azimuth_rad = radians azimuth';
                    dx = shadow_length * sin azimuth_rad;
                    dy = shadow_length * cos azimuth_rad
                in (case translate L building_geometry dx dy of
                      Inl e \<Rightarrow> Polygon_empty L
                    | Inr shadow \<Rightarrow>
                        (case unary_union L [building_geometry, shadow] of
                           Inl e \<Rightarrow> Polygon_empty L
                         | Inr complete_shadow \<Rightarrow> complete_shadow))))"

text \<open>
  The two loops of \<open>calculate_street_shade\<close>, with \<open>total_shade_area\<close> as the
  accumulator. An exception of a library call leaves the loop.
\<close>

fun building_shadows ::
  "'g shapely \<Rightarrow> sun_position \<Rightarrow> 'g \<Rightarrow> ('g \<times> real) list \<Rightarrow> real \<Rightarrow> py_error + real" where
  "building_shadows L sun street_buffer [] total_shade_area = Inr total_shade_area"
| "building_shadows L sun street_buffer ((building_geom, building_height) # rest)
       total_shade_area =
     and_then (intersects L building_geom street_buffer) (\<lambda>hit.
       if hit then
         let shadow = calculate_shade_projection L building_geom building_height sun
         in and_then (intersects L shadow street_buffer) (\<lambda>shaded.
              if shaded then
                and_then (intersection L shadow street_buffer) (\<lambda>inter.
                and_then (area L inter) (\<lambda>a.
                  building_shadows L sun street_buffer rest (total_shade_area + a)))
              else building_shadows L sun street_buffer rest total_shade_area)
       else building_shadows L sun street_buffer rest total_shade_area)"

fun tree_shadows ::
  "'g shapely \<Rightarrow> sun_position \<Rightarrow> 'g \<Rightarrow> ('g \<times> real) list \<Rightarrow> real \<Rightarrow> py_error + real" where
  "tree_shadows L sun street_buffer [] total_shade_area = Inr total_shade_area"
| "tree_shadows L sun street_buffer ((tree_geom, tree_diameter) # rest) total_shade_area =
     and_then (intersects L tree_geom street_buffer) (\<lambda>hit.
       if hit then
         let tree_height = tree_diameter * 20
         in and_then (buffer L tree_geom (tree_diameter / 2)) (\<lambda>crown.
            let shadow = calculate_shade_projection L crown tree_height sun
            in and_then (intersects L shadow street_buffer) (\<lambda>shaded.
                 if shaded then
                   and_then (intersection L shadow street_buffer) (\<lambda>inter.
                   and_then (area L inter) (\<lambda>a.
                     tree_shadows L sun street_buffer rest (total_shade_area + a)))
                 else tree_shadows L sun street_buffer rest total_shade_area))
       else tree_shadows L sun street_buffer rest total_shade_area)"

text \<open>The body of the \<open>try\<close> block after the test of the elevation.\<close>

definition street_shade_by_day ::
  "'g shapely \<Rightarrow> 'g \<Rightarrow> ('g \<times> real) list \<Rightarrow> ('g \<times> real) list \<Rightarrow> sun_position \<Rightarrow>
   py_error + real" where
  "street_shade_by_day L street_segment buildings trees sun =
     and_then (buffer L street_segment 10) (\<lambda>street_buffer.
     and_then (area L street_buffer) (\<lambda>total_area.
     and_then (building_shadows L sun street_buffer buildings 0) (\<lambda>after_buildings.
     and_then (tree_shadows L sun street_buffer trees after_buildings) (\<lambda>total_shade_area.
     and_then (py_div total_shade_area total_area) (\<lambda>q.
       Inr (min 1.0 q))))))"

text \<open>
  \<open>calculate_street_shade\<close>: 1.0 when the sun is not above the horizon, and 0.0 for
  every exception of the body.
\<close>

definition calculate_street_shade ::
  "'g shapely \<Rightarrow> 'g \<Rightarrow> ('g \<times> real) list \<Rightarrow> ('g \<times> real) list \<Rightarrow> sun_position \<Rightarrow> real" where
  "calculate_street_shade L street_segment buildings trees sun =
     (if elevation sun \<le> 0 then 1.0
      else
        (case street_shade_by_day L street_segment buildings trees sun of
           Inl e \<Rightarrow> 0.0
         | Inr shade_score \<Rightarrow> shade_score))"

section \<open>shade\_router.py\<close>

subsection \<open>The routing graph\<close>

text \<open>
  The graph is a \<open>networkx.Graph\<close>: undirected, at most one edge between two nodes,
  nodes and edges kept in the order of insertion. A node is the coordinate tuple of an end
  of a street segment. The attribute dictionary of an edge holds \<open>length\<close>,
  \<open>geometry\<close> and \<open>original_idx\<close> from the construction, and \<open>shade_score\<close> and
  \<open>combined_weight\<close> once a query has scored the edge.
\<close>

type_synonym node = "real \<times> real"

record 'g edge_data =
  edge_length :: real
  geometry :: "'g"
  original_idx :: int
  shade_score :: "real option"
  combined_weight :: "real option"

record 'g nx_graph =
  g_nodes :: "node list"
  g_edges :: "((node \<times> node) \<times> 'g edge_data) list"

definition same_edge :: "node \<times> node \<Rightarrow> node \<times> node \<Rightarrow> bool" where
  "same_edge k e = (k = e \<or> k = (snd e, fst e))"

text \<open>\<open>G[u][v]\<close>, and \<open>None\<close> where Python raises \<open>KeyError\<close>.\<close>

fun edge_lookup :: "((node \<times> node) \<times> 'g edge_data) list \<Rightarrow> node \<Rightarrow> node \<Rightarrow> 'g edge_data option" where
  "edge_lookup [] u v = None"
| "edge_lookup ((k, d) # es) u v = (if same_edge k (u, v) then Some d else edge_lookup es u v)"

definition add_node :: "'g nx_graph \<Rightarrow> node \<Rightarrow> 'g nx_graph" where
  "add_node G n = (if n \<in> set (g_nodes G) then G else G\<lparr>g_nodes := g_nodes G @ [n]\<rparr>)"

text \<open>
  \<open>G.add_edge(u, v, length=..., geometry=..., original_idx=...)\<close>: a new edge, or an
  update of these three attributes of the edge that already joins \<open>u\<close> and \<open>v\<close>.
\<close>

fun put_edge ::
  "((node \<times> node) \<times> 'g edge_data) list \<Rightarrow> node \<Rightarrow> node \<Rightarrow> real \<Rightarrow> 'g \<Rightarrow> int \<Rightarrow>
   ((node \<times> node) \<times> 'g edge_data) list" where
  "put_edge [] u v len geom idx =
     [((u, v), \<lparr>edge_length = len, geometry = geom, original_idx = idx,
               shade_score = None, combined_weight = None\<rparr>)]"
| "put_edge ((k, d) # es) u v len geom idx =
     (if same_edge k (u, v)
      then (k, d\<lparr>edge_length := len, geometry := geom, original_idx := idx\<rparr>) # es
      else (k, d) # put_edge es u v len geom idx)"

definition add_edge :: "'g nx_graph \<Rightarrow> node \<Rightarrow> node \<Rightarrow> real \<Rightarrow> 'g \<Rightarrow> int \<Rightarrow> 'g nx_graph" where
  "add_edge G u v len geom idx =
     (let G' = add_node (add_node G u) v
      in G'\<lparr>g_edges := put_edge (g_edges G') u v len geom idx\<rparr>)"

text \<open>
  A row of the street table: its geometry, and its numeric columns by name.
  \<open>row.get(key, default)\<close> gives the default when the row has no such column.
\<close>

record 'g street_row =
  row_geometry :: "'g"
  row_attrs :: "string \<rightharpoonup> real"

definition row_get :: "'g street_row \<Rightarrow> string \<Rightarrow> real \<Rightarrow> real" where
  "row_get row k dflt = (case row_attrs row k of None \<Rightarrow> dflt | Some x \<Rightarrow> x)"



text \<open>
  The loop of \<open>_create_routing_graph\<close> over \<open>street_network.iterrows()\<close>; an exception
  is logged and raised again.
\<close>

fun add_street_rows ::
  "'g shapely \<Rightarrow> (int \<times> 'g street_row) list \<Rightarrow> 'g nx_graph \<Rightarrow> py_error + 'g nx_graph" where
  "add_street_rows L [] G = Inr G"
| "add_street_rows L ((idx, row) # rest) G =
     (if is_valid L (row_geometry row) \<and> \<not> is_empty_geom L (row_geometry row) then
        and_then (coords L (row_geometry row)) (\<lambda>cs.
          if length cs \<ge> 2 then
            let start_point = hd cs;
                end_point = last cs;
                G1 = add_node (add_node G start_point) end_point;
                len = row_get row ''length_m'' 100
            in add_street_rows L rest
                 (add_edge G1 start_point end_point len (row_geometry row) idx)
          else add_street_rows L rest G)
      else add_street_rows L rest G)"


definition create_routing_graph ::
  "'g shapely \<Rightarrow> (int \<times> 'g street_row) list \<Rightarrow> py_error + 'g nx_graph" where
  "create_routing_graph L street_network =
     add_street_rows L street_network \<lparr>g_nodes = [], g_edges = []\<rparr>"

subsection \<open>The router and the global routing parameters\<close>

text \<open>\<open>ROUTING_PARAMS\<close> of config.py, a dictionary of the module that the router mutates.\<close>

record routing_params =
  max_distance_km :: real
  shade_threshold :: real
  time_weight :: real
  shade_weight :: real

definition ROUTING_PARAMS_of_config :: routing_params where
  "ROUTING_PARAMS_of_config =
     \<lparr>max_distance_km = 50.0, shade_threshold = 0.3, time_weight = 0.4, shade_weight = 0.6\<rparr>"

text \<open>
  The state a query reads and writes: the fields of the \<open>ShadeRouter\<close> object and the
  global \<open>ROUTING_PARAMS\<close>.
\<close>

record 'g shade_router =
  graph :: "'g nx_graph"
  building_list :: "('g \<times> real) list"
  tree_list :: "('g \<times> real) list"
  sun_calc :: sun_calculator
  ROUTING_PARAMS :: routing_params

definition haversine_distance :: "node \<Rightarrow> node \<Rightarrow> real" where
  "haversine_distance point1 point2 =
     (let lon1 = fst point1; lat1 = snd point1;
          lon2 = fst point2; lat2 = snd point2;
          lat1_rad = radians lat1;
          lat2_rad = radians lat2;
          delta_lat = radians (lat2 - lat1);
          delta_lon = radians (lon2 - lon1);
          a = (sin (delta_lat / 2))\<^sup>2 + cos lat1_rad * cos lat2_rad * (sin (delta_lon / 2))\<^sup>2;
          c = 2 * arcsin (sqrt a);
          earth_radius = 6371000
      in earth_radius * c)"

text \<open>
  The scan of \<open>_find_nearest_node\<close>. The pair \<open>(min_distance, nearest_node)\<close> starts
  as \<open>(inf, None)\<close>, here \<open>None\<close>; every distance is below \<open>inf\<close>.
\<close>

fun nearest_scan :: "node \<Rightarrow> node list \<Rightarrow> (real \<times> node) option \<Rightarrow> (real \<times> node) option" where
  "nearest_scan p [] best = best"
| "nearest_scan p (n # ns) best =
     (let distance = haversine_distance p n
      in if (case best of None \<Rightarrow> True | Some (min_distance, nearest) \<Rightarrow> distance < min_distance)
         then nearest_scan p ns (Some (distance, n))
         else nearest_scan p ns best)"

definition find_nearest_node :: "'g nx_graph \<Rightarrow> real \<times> real \<Rightarrow> node option" where
  "find_nearest_node G point =
     (let point_lon_lat = (snd point, fst point)
      in case nearest_scan point_lon_lat (g_nodes G) None of
           None \<Rightarrow> None
         | Some (min_distance, nearest_node) \<Rightarrow>
             if min_distance < 1000 then Some nearest_node else None)"

definition score_edge ::
  "'g shapely \<Rightarrow> 'g shade_router \<Rightarrow> sun_position \<Rightarrow> 'g edge_data \<Rightarrow> 'g edge_data" where
  "score_edge L w sun d =
     (let shade = calculate_street_shade L (geometry d) (building_list w) (tree_list w) sun;
          shade_w = shade_weight (ROUTING_PARAMS w);
          time_w = time_weight (ROUTING_PARAMS w);
          normalized_shade = shade;
          cw = time_w * edge_length d + shade_w * (1 - normalized_shade) * edge_length d
      in d\<lparr>shade_score := Some shade, combined_weight := Some cw\<rparr>)"

definition calculate_edge_shade_scores ::
  "'g shapely \<Rightarrow> sun_position \<Rightarrow> 'g shade_router \<Rightarrow> 'g shade_router" where
  "calculate_edge_shade_scores L sun w =
     w\<lparr>graph := (graph w)\<lparr>g_edges := map (\<lambda>(k, d). (k, score_edge L w sun d))
                                         (g_edges (graph w))\<rparr>\<rparr>"

subsection \<open>The path search\<close>

text \<open>
  \<open>nx.shortest_path(G, source, target, weight=...)\<close> belongs to networkx, not to the
  repository: the model takes it as a parameter \<open>sp\<close>. The program relies on its
  documented behaviour that a search between two nodes that no path joins raises
  \<open>NetworkXNoPath\<close>, whichever edge attribute is the weight.
\<close>

datatype weight_key = by_combined_weight | by_length

type_synonym 'g shortest_path =
  "'g nx_graph \<Rightarrow> node \<Rightarrow> node \<Rightarrow> weight_key \<Rightarrow> py_error + node list"

definition path_exists :: "'g nx_graph \<Rightarrow> node \<Rightarrow> node \<Rightarrow> bool" where
  "path_exists G s t = ((s, t) \<in> {(u, v). edge_lookup (g_edges G) u v \<noteq> None}\<^sup>*)"

definition no_path_raises :: "'g shortest_path \<Rightarrow> bool" where
  "no_path_raises sp =
     (\<forall>G s t k. s \<in> set (g_nodes G) \<and> t \<in> set (g_nodes G) \<and> \<not> path_exists G s t
        \<longrightarrow> sp G s t k = Inl NetworkXNoPath)"

record 'g edge_info =
  start_n :: node
  end_n :: node
  distance_m :: real
  edge_shade_score :: real
  edge_geometry :: "'g"

record 'g route_info =
  path :: "node list"
  edges :: "'g edge_info list"
  total_distance :: real
  total_shade_score :: real
  num_segments :: nat

text \<open>The loop over the consecutive pairs of the path.\<close>

fun route_edges :: "'g nx_graph \<Rightarrow> node list \<Rightarrow> py_error + 'g edge_info list" where
  "route_edges G (a # b # rest) =
     (case edge_lookup (g_edges G) a b of
        None \<Rightarrow> Inl KeyError
      | Some d \<Rightarrow>
          and_then (route_edges G (b # rest)) (\<lambda>es.
            Inr (\<lparr>start_n = a, end_n = b, distance_m = edge_length d,
                  edge_shade_score = (case shade_score d of None \<Rightarrow> 0.0 | Some x \<Rightarrow> x),
                  edge_geometry = geometry d\<rparr> # es)))"
| "route_edges G p = Inr []"

text \<open>
  \<open>_find_optimal_route\<close>: the search under \<open>combined_weight\<close>, on \<open>NetworkXNoPath\<close>
  the search under \<open>length\<close>; every other exception, and an exception of the second
  search, is logged and raised again. The distance limit only logs a warning.
\<close>

definition find_optimal_route ::
  "'g shortest_path \<Rightarrow> 'g nx_graph \<Rightarrow> node \<Rightarrow> node \<Rightarrow> real option \<Rightarrow> py_error + 'g route_info" where
  "find_optimal_route sp G start_node end_node max_dist =
     and_then
       (case sp G start_node end_node by_combined_weight of
          Inl NetworkXNoPath \<Rightarrow> sp G start_node end_node by_length
        | Inl e \<Rightarrow> Inl e
        | Inr p \<Rightarrow> Inr p)
       (\<lambda>p. and_then (route_edges G p) (\<lambda>edges_info.
          Inr \<lparr>path = p, edges = edges_info,
               total_distance = sum_list (map distance_m edges_info),
               total_shade_score = sum_list (map edge_shade_score edges_info),
               num_segments = length edges_info\<rparr>))"

subsection \<open>Queries\<close>

text \<open>
  \<open>np.mean\<close> of the shade scores of a route: of an empty list it is \<open>nan\<close> (with a
  warning, not an exception), and every comparison with \<open>nan\<close> is false.
\<close>

datatype npfloat = Num real | NaN

definition np_mean :: "real list \<Rightarrow> npfloat" where
  "np_mean xs = (if xs = [] then NaN else Num (sum_list xs / real (length xs)))"

fun np_less :: "npfloat \<Rightarrow> npfloat \<Rightarrow> bool" where
  "np_less (Num a) (Num b) = (a < b)"
| "np_less x y = False"

text \<open>
  The dictionary of a route: the entries of \<open>_find_optimal_route\<close> and those that
  \<open>update\<close> adds. The date and the time are kept as values (the program stores them
  formatted), and \<open>weight_combination\<close>, present on alternatives only, as the pair of
  weights (the program stores the text \<open>shade:0.8, time:0.2\<close>).
\<close>

record 'g route = "'g route_info" +
  route_start_point :: "real \<times> real"
  route_end_point :: "real \<times> real"
  route_date :: py_date
  route_time_of_day :: py_time
  route_sun_position :: sun_position
  total_distance_km :: real
  average_shade_score :: npfloat
  weight_combination :: "(real \<times> real) option"

definition with_metadata ::
  "'g route_info \<Rightarrow> real \<times> real \<Rightarrow> real \<times> real \<Rightarrow> py_date \<Rightarrow> py_time \<Rightarrow> sun_position \<Rightarrow>
   (real \<times> real) option \<Rightarrow> 'g route" where
  "with_metadata ri start_point end_point d t sun blend =
     \<lparr>path = path ri, edges = edges ri, total_distance = total_distance ri,
      total_shade_score = total_shade_score ri, num_segments = num_segments ri,
      route_start_point = start_point, route_end_point = end_point,
      route_date = d, route_time_of_day = t, route_sun_position = sun,
      total_distance_km = total_distance ri / 1000,
      average_shade_score = np_mean (map edge_shade_score (edges ri)),
      weight_combination = blend\<rparr>"

text \<open>
  What a query takes from outside the program: today's date and the parsers
  \<open>datetime.strptime(s, "%Y-%m-%d").date()\<close> and \<open>datetime.strptime(s, "%H:%M").time()\<close>,
  which raise \<open>ValueError\<close> on a text that does not match.
\<close>

record py_env =
  today :: py_date
  strptime_date :: "string \<Rightarrow> py_error + py_date"
  strptime_time :: "string \<Rightarrow> py_error + py_time"

definition no_nearby_node :: py_error where
  "no_nearby_node = ValueError ''Could not find start or end point in street network''"

text \<open>
  \<open>find_shadiest_route\<close>. The result is the route or the exception, and the state
  after the call: the edges are scored in place, so an exception of the path search
  leaves the new scores behind.
\<close>

definition find_shadiest_route ::
  "py_env \<Rightarrow> 'g shapely \<Rightarrow> 'g shortest_path \<Rightarrow> 'g shade_router \<Rightarrow>
   real \<times> real \<Rightarrow> real \<times> real \<Rightarrow> string option \<Rightarrow> string option \<Rightarrow> real option \<Rightarrow>
   (py_error + 'g route) \<times> 'g shade_router" where
  "find_shadiest_route env L sp w start_point end_point date time_of_day max_dist =
     (case (case date of None \<Rightarrow> Inr (today env) | Some s \<Rightarrow> strptime_date env s) of
        Inl e \<Rightarrow> (Inl e, w)
      | Inr date' \<Rightarrow>
     (case (case time_of_day of None \<Rightarrow> Inr \<lparr>hour = 12, minute = 0\<rparr>
                               | Some s \<Rightarrow> strptime_time env s) of
        Inl e \<Rightarrow> (Inl e, w)
      | Inr time_of_day' \<Rightarrow>
     (case calculate_sun_position (sun_calc w) date' time_of_day' of
        Inl e \<Rightarrow> (Inl e, w)
      | Inr sun \<Rightarrow>
     (case (find_nearest_node (graph w) start_point, find_nearest_node (graph w) end_point) of
        (Some start_node, Some end_node) \<Rightarrow>
          let w' = calculate_edge_shade_scores L sun w
          in (case find_optimal_route sp (graph w') start_node end_node max_dist of
                Inl e \<Rightarrow> (Inl e, w')
              | Inr route_info \<Rightarrow>
                  (Inr (with_metadata route_info start_point end_point date' time_of_day'
                          sun None), w'))
      | _ \<Rightarrow> (Inl no_nearby_node, w)))))"

definition weight_combinations :: "(real \<times> real) list" where
  "weight_combinations = [(0.8, 0.2), (0.2, 0.8), (0.5, 0.5)]"

text \<open>The slice \<open>xs[:k]\<close>; a negative \<open>k\<close> counts from the end.\<close>

definition slice_to :: "'a list \<Rightarrow> int \<Rightarrow> 'a list" where
  "slice_to xs k = (if 0 \<le> k then take (nat k) xs else take (nat (int (length xs) + k)) xs)"

text \<open>
  The \<open>try\<close> block of one alternative, run with the overridden weights: the route
  (none when a node is missing) or the exception, and the state.
\<close>

definition alternative_route ::
  "'g shapely \<Rightarrow> 'g shortest_path \<Rightarrow> 'g shade_router \<Rightarrow> real \<times> real \<Rightarrow> real \<times> real \<Rightarrow>
   'g route \<Rightarrow> real \<times> real \<Rightarrow> (py_error + 'g route option) \<times> 'g shade_router" where
  "alternative_route L sp w start_point end_point primary_route blend =
     (case (find_nearest_node (graph w) start_point, find_nearest_node (graph w) end_point) of
        (Some start_node, Some end_node) \<Rightarrow>
          let w' = calculate_edge_shade_scores L (route_sun_position primary_route) w
          in (case find_optimal_route sp (graph w') start_node end_node None of
                Inl e \<Rightarrow> (Inl e, w')
              | Inr alt_route \<Rightarrow>
                  (Inr (Some (with_metadata alt_route start_point end_point
                                (route_date primary_route) (route_time_of_day primary_route)
                                (route_sun_position primary_route) (Some blend))), w'))
      | _ \<Rightarrow> (Inr None, w))"

text \<open>
  The loop over the blends: save the two weights, override them, run the \<open>try\<close>
  block, and restore them in the \<open>finally\<close> clause, also when the block raised.
\<close>

fun alternatives_loop ::
  "'g shapely \<Rightarrow> 'g shortest_path \<Rightarrow> real \<times> real \<Rightarrow> real \<times> real \<Rightarrow> 'g route \<Rightarrow>
   (real \<times> real) list \<Rightarrow> 'g route list \<Rightarrow> 'g shade_router \<Rightarrow>
   (py_error + 'g route list) \<times> 'g shade_router" where
  "alternatives_loop L sp start_point end_point primary_route [] alternatives w =
     (Inr alternatives, w)"
| "alternatives_loop L sp start_point end_point primary_route ((shade_w, time_w) # rest)
       alternatives w =
     (let original_shade_weight = shade_weight (ROUTING_PARAMS w);
          original_time_weight = time_weight (ROUTING_PARAMS w);
          w1 = w\<lparr>ROUTING_PARAMS :=
                   (ROUTING_PARAMS w)\<lparr>shade_weight := shade_w, time_weight := time_w\<rparr>\<rparr>;
          tried = alternative_route L sp w1 start_point end_point primary_route
                    (shade_w, time_w);
          w2 = snd tried;
          w3 = w2\<lparr>ROUTING_PARAMS :=
                    (ROUTING_PARAMS w2)\<lparr>shade_weight := original_shade_weight,
                                         time_weight := original_time_weight\<rparr>\<rparr>
      in (case fst tried of
            Inl e \<Rightarrow> (Inl e, w3)
          | Inr None \<Rightarrow>
              alternatives_loop L sp start_point end_point primary_route rest alternatives w3
          | Inr (Some alt_route) \<Rightarrow>
              alternatives_loop L sp start_point end_point primary_route rest
                (alternatives @ [alt_route]) w3))"

text \<open>
  \<open>alternatives.sort(key=..., reverse=True)\<close>. The sort of Python is stable, also in
  reverse: it reverses the list, sorts it in ascending order comparing the keys with
  \<open><\<close> only, and reverses the result. The model sorts by stable insertion; every stable
  sort gives the same list when no key is \<open>nan\<close>, and also when all are.
\<close>

fun insort_less :: "('a \<Rightarrow> npfloat) \<Rightarrow> 'a \<Rightarrow> 'a list \<Rightarrow> 'a list" where
  "insort_less key x [] = [x]"
| "insort_less key x (y # ys) =
     (if np_less (key y) (key x) then y # insort_less key x ys else x # y # ys)"

text \<open>The number of a key that is not \<open>nan\<close>.\<close>

fun num_of :: "npfloat \<Rightarrow> real" where
  "num_of (Num x) = x"
| "num_of NaN = 0"

definition stable_sort :: "('a \<Rightarrow> npfloat) \<Rightarrow> 'a list \<Rightarrow> 'a list" where
  "stable_sort key xs = foldr (insort_less key) xs []"

definition sort_reverse :: "('a \<Rightarrow> npfloat) \<Rightarrow> 'a list \<Rightarrow> 'a list" where
  "sort_reverse key xs = rev (stable_sort key (rev xs))"

definition get_route_alternatives ::
  "py_env \<Rightarrow> 'g shapely \<Rightarrow> 'g shortest_path \<Rightarrow> 'g shade_router \<Rightarrow>
   real \<times> real \<Rightarrow> real \<times> real \<Rightarrow> int \<Rightarrow> string option \<Rightarrow> string option \<Rightarrow>
   (py_error + 'g route list) \<times> 'g shade_router" where
  "get_route_alternatives env L sp w start_point end_point num_alternatives date time_of_day =
     (case find_shadiest_route env L sp w start_point end_point date time_of_day None of
        (Inl e, w1) \<Rightarrow> (Inl e, w1)
      | (Inr primary_route, w1) \<Rightarrow>
          (case alternatives_loop L sp start_point end_point primary_route
                  (slice_to weight_combinations (num_alternatives - 1)) [primary_route] w1 of
             (Inl e, w2) \<Rightarrow> (Inl e, w2)
           | (Inr alternatives, w2) \<Rightarrow> (Inr (sort_reverse average_shade_score alternatives), w2)))"

section \<open>Concrete instances\<close>

text \<open>
  A small instance of the library record, for evaluating the program on concrete
  inputs: a geometry is a list of unit cells of the integer grid. As in shapely, a
  geometry object has no \<open>translate\<close> method (the translation of shapely is the function
  \<open>shapely.affinity.translate\<close>), so the call raises \<open>AttributeError\<close>.
\<close>

type_synonym cells = "(int \<times> int) list"

definition cell_geometry :: "cells shapely" where
  "cell_geometry =
     \<lparr>Polygon_empty = [],
      translate = (\<lambda>g dx dy. Inl AttributeError),
      unary_union = (\<lambda>gs. Inr (remdups (concat gs))),
      buffer = (\<lambda>g r. Inr g),
      intersects = (\<lambda>a b. Inr (list_ex (\<lambda>c. c \<in> set b) a)),
      intersection = (\<lambda>a b. Inr (filter (\<lambda>c. c \<in> set b) a)),
      area = (\<lambda>g. Inr (real (length (remdups g)))),
      is_valid = (\<lambda>g. True),
      is_empty_geom = (\<lambda>g. g = []),
      coords = (\<lambda>g. Inr (map (\<lambda>(x, y). (real_of_int x, real_of_int y)) g))\<rparr>"

text \<open>
  A path search that only knows direct edges. It raises \<open>NetworkXNoPath\<close> whenever
  no path joins the two nodes (and also for some nodes that a longer path joins), which
  is all the program is assumed to rely on.
\<close>

definition direct_shortest_path :: "'g shortest_path" where
  "direct_shortest_path G s t k =
     (if s \<notin> set (g_nodes G) \<or> t \<notin> set (g_nodes G) then Inl NodeNotFound
      else if s = t then Inr [s]
      else if edge_lookup (g_edges G) s t \<noteq> None then Inr [s, t]
      else Inl NetworkXNoPath)"

text \<open>An environment that knows one date and two times of day.\<close>

definition fixed_env :: py_env where
  "fixed_env =
     \<lparr>today = \<lparr>year = 2024, month = 6, day = 21\<rparr>,
      strptime_date = (\<lambda>s. if s = ''2024-06-21'' then Inr \<lparr>year = 2024, month = 6, day = 21\<rparr>
                            else Inl (ValueError ''time data does not match format'')),
      strptime_time = (\<lambda>s. if s = ''13:00'' then Inr \<lparr>hour = 13, minute = 0\<rparr>
                            else if s = ''20:00'' then Inr \<lparr>hour = 20, minute = 0\<rparr>
                            else Inl (ValueError ''time data does not match format''))\<rparr>"


definition one_street_graph :: "cells nx_graph" where
  "one_street_graph =
     \<lparr>g_nodes = [(0, 0), (180, 0)],
      g_edges = [(((0, 0), (180, 0)),
                  \<lparr>edge_length = 100, geometry = [(0, 0), (180, 0)], original_idx = 0,
                   shade_score = None, combined_weight = None\<rparr>)]\<rparr>"

definition one_street_router :: "cells shade_router" where
  "one_street_router =
     \<lparr>graph = one_street_graph,
      building_list = [([(0, 0)], 25)], tree_list = [],
      sun_calc = SunCalculator 0 0, ROUTING_PARAMS = ROUTING_PARAMS_of_config\<rparr>"

definition no_street_graph :: "cells nx_graph" where
  "no_street_graph = \<lparr>g_nodes = [(0, 0), (180, 0)], g_edges = []\<rparr>"



text \<open>
  A table of two rows over the same end points, the first without a length and the
  second with the length 7: its rows do not have the same columns.
\<close>

definition mixed_table :: "(int \<times> cells street_row) list" where
  "mixed_table =
     [(0, \<lparr>row_geometry = [(0, 0), (180, 0)], row_attrs = Map.empty\<rparr>),
      (1, \<lparr>row_geometry = [(0, 0), (90, 0), (180, 0)],
          row_attrs = [''length_m'' \<mapsto> 7]\<rparr>)]"

text \<open>A router whose graph has the single node \<open>(0, 0)\<close>.\<close>

definition lone_node_router :: "cells shade_router" where
  "lone_node_router =
     \<lparr>graph = \<lparr>g_nodes = [(0, 0)], g_edges = []\<rparr>,
      building_list = [], tree_list = [],
      sun_calc = SunCalculator 0 0, ROUTING_PARAMS = ROUTING_PARAMS_of_config\<rparr>"

section \<open>Properties of the sun calculator\<close>

lemma local_to_utc_evening:
  "19 \<le> hour t \<Longrightarrow>
   local_to_utc (SunCalculator lat lon) d t = Inl (ValueError ''hour must be in 0..23'')"
  by (simp add: local_to_utc_def SunCalculator_def combine_def replace_hour_def)

text \<open>
  Claim C2. For every well-formed date and every well-formed local time of day whose
  hour is 19 or later, \<open>calculate_sun_position\<close> raises instead of returning a sun
  position: the conversion to UTC asks \<open>replace\<close> for the hour \<open>hour + 5 \<ge> 24\<close>,
  which is refused with a \<open>ValueError\<close> instead of rolling over to the next day.
\<close>

theorem evening_sun_position_raises:
  "valid_date d \<Longrightarrow> valid_time t \<Longrightarrow> 19 \<le> hour t \<Longrightarrow>
   calculate_sun_position (SunCalculator lat lon) d t =
     Inl (ValueError ''hour must be in 0..23'')"
  by (simp add: calculate_sun_position_def local_to_utc_evening)

theorem evening_sun_position_raises_witness:
  "valid_date \<lparr>year = 2024, month = 6, day = 21\<rparr> \<and>
   valid_time \<lparr>hour = 20, minute = 0\<rparr> \<and>
   19 \<le> hour \<lparr>hour = 20, minute = 0\<rparr> \<and>
   calculate_sun_position (SunCalculator 40.7128 (- 74.0060))
       \<lparr>year = 2024, month = 6, day = 21\<rparr> \<lparr>hour = 20, minute = 0\<rparr> =
     Inl (ValueError ''hour must be in 0..23'')"
proof -
  have d: "valid_date \<lparr>year = 2024, month = 6, day = 21\<rparr>"
    by (simp add: valid_date_def days_in_month_def)
  have t: "valid_time \<lparr>hour = 20, minute = 0\<rparr>"
    by (simp add: valid_time_def)
  have h: "19 \<le> hour \<lparr>hour = 20, minute = 0\<rparr>"
    by simp
  show ?thesis
    using d t h evening_sun_position_raises [OF d t h, of "40.7128" "- 74.0060"] by simp
qed

text \<open>The calculation reads two fields of the calculator only.\<close>

lemma sun_position_reads:
  assumes "latitude_rad s1 = latitude_rad s2" and "timezone_offset s1 = timezone_offset s2"
  shows "calculate_sun_position s1 d t = calculate_sun_position s2 d t"
proof -
  have utc: "local_to_utc s1 d t = local_to_utc s2 d t"
    by (simp add: local_to_utc_def assms)
  have el: "calculate_elevation s1 = calculate_elevation s2"
    by (intro ext) (simp add: calculate_elevation_def assms)
  have az: "calculate_azimuth s1 = calculate_azimuth s2"
    by (intro ext) (simp add: calculate_azimuth_def assms)
  show ?thesis
    unfolding calculate_sun_position_def utc el az by (rule refl)
qed

text \<open>
  Claim C9. Two sun-position calculations that differ only in the observer's longitude
  give the same result, so the same elevation and the same azimuth (and the same
  exception when the call raises): \<open>self.longitude\<close> is stored and never read.
\<close>

theorem sun_position_longitude_invariant:
  "calculate_sun_position (SunCalculator lat lon1) d t =
   calculate_sun_position (SunCalculator lat lon2) d t"
  by (rule sun_position_reads) (simp_all add: SunCalculator_def)

section \<open>Properties of the shade calculation\<close>

lemma and_then_simps [simp]:
  "and_then (Inl e) f = Inl e"
  "and_then (Inr v) f = f v"
  by (simp_all add: and_then_def)

lemma and_then_Inr_iff:
  "and_then r f = Inr y \<longleftrightarrow> (\<exists>v. r = Inr v \<and> f v = Inr y)"
  by (cases r) simp_all

text \<open>
  When every call of the library returns and the tangent is not zero, the projection is
  the union of the footprint and the footprint moved by
  \<open>height / tan(elevation)\<close> in the direction \<open>(sin(azimuth), cos(azimuth))\<close>.
\<close>

lemma shade_projection_union:
  assumes "0 < elevation sun" and "tan (radians (elevation sun)) \<noteq> 0"
    and "translate L g (h / tan (radians (elevation sun)) * sin (radians (azimuth sun)))
           (h / tan (radians (elevation sun)) * cos (radians (azimuth sun))) = Inr shadow"
    and "unary_union L [g, shadow] = Inr u"
  shows "calculate_shade_projection L g h sun = u"
  using assms by (simp add: calculate_shade_projection_def py_div_def Let_def)

text \<open>
  Claim C1. The claim says that for a sun above the horizon the projection is the union
  of the footprint and the translated footprint, hence not empty. The program calls
  \<open>building_geometry.translate(dx, dy)\<close>; where the geometry object has no such method
  the call raises \<open>AttributeError\<close>, the \<open>except\<close> clause swallows it, and the result
  is the empty \<open>Polygon()\<close> for every footprint, height and sun position.
\<close>

theorem shade_projection_without_translate:
  assumes "\<And>dx dy. translate L g dx dy = Inl AttributeError"
  shows "calculate_shade_projection L g h sun = Polygon_empty L"
  using assms by (simp add: calculate_shade_projection_def Let_def split: sum.split)

theorem shade_projection_without_translate_witness:
  "calculate_shade_projection cell_geometry [(0, 0)] 10
     \<lparr>elevation = 45, azimuth = 180, declination = 0, hour_angle = 0\<rparr> = [] \<and>
   [] \<noteq> remdups (concat [[(0, 0)], [(0, - 10)]])"
  using shade_projection_without_translate
    [of cell_geometry "[(0, 0)]" 10
        "\<lparr>elevation = 45, azimuth = 180, declination = 0, hour_angle = 0\<rparr>"]
  by (simp add: cell_geometry_def)

text \<open>
  Claim C3. When the elevation of the sun is at most 0, \<open>calculate_street_shade\<close>
  returns exactly 1.0 for every street segment, every list of buildings and every list
  of trees, and whatever the geometry library does: no operation of the library is
  called before the result.
\<close>

theorem street_shade_at_night:
  "elevation sun \<le> 0 \<Longrightarrow> calculate_street_shade L street_segment buildings trees sun = 1.0"
  by (simp add: calculate_street_shade_def)

theorem street_shade_at_night_witness:
  "elevation \<lparr>elevation = - 12, azimuth = 0, declination = 0, hour_angle = 0\<rparr> \<le> 0 \<and>
   calculate_street_shade cell_geometry [(0, 0), (1, 0)] [([(0, 0)], 25)] [([(1, 0)], 0.5)]
     \<lparr>elevation = - 12, azimuth = 0, declination = 0, hour_angle = 0\<rparr> = 1.0"
  using street_shade_at_night
    [of "\<lparr>elevation = - 12, azimuth = 0, declination = 0, hour_angle = 0\<rparr>"
        cell_geometry "[(0, 0), (1, 0)]" "[([(0, 0)], 25)]" "[([(1, 0)], 0.5)]"]
  by simp

lemma building_shadows_mono:
  "areas_nonnegative L \<Longrightarrow> building_shadows L sun sb buildings acc = Inr r \<Longrightarrow> acc \<le> r"
proof (induction buildings arbitrary: acc)
  case Nil
  then show ?case by simp
next
  case (Cons b buildings)
  obtain g h where b: "b = (g, h)" by (cases b)
  have nn: "\<And>g a. area L g = Inr a \<Longrightarrow> 0 \<le> a"
    using Cons.prems(1) by (simp add: areas_nonnegative_def)
  have IH: "\<And>acc'. building_shadows L sun sb buildings acc' = Inr r \<Longrightarrow> acc' \<le> r"
    using Cons.IH Cons.prems(1) by blast
  from Cons.prems(2) show ?case
    unfolding b
    by (auto simp: and_then_Inr_iff Let_def split: if_splits dest!: nn IH)
qed

lemma tree_shadows_mono:
  "areas_nonnegative L \<Longrightarrow> tree_shadows L sun sb trees acc = Inr r \<Longrightarrow> acc \<le> r"
proof (induction trees arbitrary: acc)
  case Nil
  then show ?case by simp
next
  case (Cons b trees)
  obtain g d where b: "b = (g, d)" by (cases b)
  have nn: "\<And>g a. area L g = Inr a \<Longrightarrow> 0 \<le> a"
    using Cons.prems(1) by (simp add: areas_nonnegative_def)
  have IH: "\<And>acc'. tree_shadows L sun sb trees acc' = Inr r \<Longrightarrow> acc' \<le> r"
    using Cons.IH Cons.prems(1) by blast
  from Cons.prems(2) show ?case
    unfolding b
    by (auto simp: and_then_Inr_iff Let_def split: if_splits dest!: nn IH)
qed

lemma street_shade_by_day_range:
  assumes "areas_nonnegative L"
    and "street_shade_by_day L street_segment buildings trees sun = Inr s"
  shows "0 \<le> s \<and> s \<le> 1"
proof -
  from assms(2) obtain street_buffer total_area after_buildings total_shade_area q where
    ta: "area L street_buffer = Inr total_area"
    and bs: "building_shadows L sun street_buffer buildings 0 = Inr after_buildings"
    and ts: "tree_shadows L sun street_buffer trees after_buildings = Inr total_shade_area"
    and q: "py_div total_shade_area total_area = Inr q"
    and s: "s = min 1 q"
    by (auto simp: street_shade_by_day_def and_then_Inr_iff)
  have "0 \<le> total_area"
    using assms(1) ta by (simp add: areas_nonnegative_def)
  moreover have "0 \<le> total_shade_area"
    using building_shadows_mono [OF assms(1) bs] tree_shadows_mono [OF assms(1) ts] by simp
  moreover have "q = total_shade_area / total_area"
    using q by (simp add: py_div_def split: if_splits)
  ultimately have "0 \<le> q" by simp
  then show ?thesis by (simp add: s)
qed

text \<open>
  Claim C4. For every street segment, list of buildings, list of trees and sun
  position, and whichever calls of the geometry library raise, the result of
  \<open>calculate_street_shade\<close> lies in the closed interval from 0.0 to 1.0: the quotient of
  the accumulated shadow area by the area of the buffer is a quotient of areas and is
  capped by \<open>min(1.0, .)\<close>, the night gives 1.0 and every exception gives 0.0.
\<close>

theorem street_shade_in_unit_interval:
  assumes "areas_nonnegative L"
  shows "0 \<le> calculate_street_shade L street_segment buildings trees sun \<and>
         calculate_street_shade L street_segment buildings trees sun \<le> 1"
  using street_shade_by_day_range [OF assms]
  by (auto simp: calculate_street_shade_def split: sum.split)

theorem street_shade_in_unit_interval_witness:
  "areas_nonnegative cell_geometry \<and>
   0 \<le> calculate_street_shade cell_geometry [(0, 0), (1, 0)]
          [([(0, 0), (0, 1)], 25), ([(1, 0)], 8)] [([(1, 0)], 0.5)]
          \<lparr>elevation = 45, azimuth = 180, declination = 0, hour_angle = 0\<rparr> \<and>
   calculate_street_shade cell_geometry [(0, 0), (1, 0)]
          [([(0, 0), (0, 1)], 25), ([(1, 0)], 8)] [([(1, 0)], 0.5)]
          \<lparr>elevation = 45, azimuth = 180, declination = 0, hour_angle = 0\<rparr> \<le> 1"
proof -
  have nn: "areas_nonnegative cell_geometry"
    by (auto simp: areas_nonnegative_def cell_geometry_def)
  show ?thesis
    using nn street_shade_in_unit_interval [OF nn] by blast
qed

section \<open>Properties of the router\<close>

lemma edge_scores_keep_params [simp]:
  "ROUTING_PARAMS (calculate_edge_shade_scores L sun w) = ROUTING_PARAMS w"
  by (simp add: calculate_edge_shade_scores_def)

lemma edge_scores_keep_nodes [simp]:
  "g_nodes (graph (calculate_edge_shade_scores L sun w)) = g_nodes (graph w)"
  by (simp add: calculate_edge_shade_scores_def)

lemma find_nearest_node_scored [simp]:
  "find_nearest_node (graph (calculate_edge_shade_scores L sun w)) p =
   find_nearest_node (graph w) p"
  by (simp add: find_nearest_node_def)

lemma find_shadiest_route_keeps_params:
  "ROUTING_PARAMS (snd (find_shadiest_route env L sp w start_point end_point date time_of_day md)) =
   ROUTING_PARAMS w"
  by (simp add: find_shadiest_route_def Let_def split: sum.split option.split prod.split)

lemma alternative_route_keeps_params:
  "ROUTING_PARAMS (snd (alternative_route L sp w start_point end_point primary blend)) =
   ROUTING_PARAMS w"
  by (simp add: alternative_route_def Let_def split: sum.split option.split prod.split)

lemma restore_weights:
  "rp\<lparr>shade_weight := a, time_weight := b\<rparr>\<lparr>shade_weight := shade_weight rp,
      time_weight := time_weight rp\<rparr> = rp"
  by simp

lemma alternatives_loop_keeps_params:
  "ROUTING_PARAMS (snd (alternatives_loop L sp start_point end_point primary blends alts w)) =
   ROUTING_PARAMS w"
proof (induction blends arbitrary: alts w)
  case Nil
  then show ?case by simp
next
  case (Cons blend blends)
  obtain shade_w time_w where blend: "blend = (shade_w, time_w)" by (cases blend)
  show ?case
    unfolding blend
    by (simp add: Let_def Cons.IH alternative_route_keeps_params split: sum.split option.split)
qed

text \<open>
  Claim C8. After every call of \<open>get_route_alternatives\<close>, whether it returns the list
  or raises (in the primary query or inside the computation of an alternative), the
  global \<open>ROUTING_PARAMS\<close> is what it was before the call: each alternative saves the two
  weights, overrides them, and restores them in its \<open>finally\<close> clause.
\<close>

theorem alternatives_restore_routing_params:
  "ROUTING_PARAMS (snd (get_route_alternatives env L sp w start_point end_point
       num_alternatives date time_of_day)) = ROUTING_PARAMS w"
proof (cases "find_shadiest_route env L sp w start_point end_point date time_of_day None")
  case (Pair r w1)
  have w1: "ROUTING_PARAMS w1 = ROUTING_PARAMS w"
    using find_shadiest_route_keeps_params [of env L sp w start_point end_point date time_of_day None]
    by (simp add: Pair)
  show ?thesis
  proof (cases r)
    case (Inl e)
    then show ?thesis by (simp add: get_route_alternatives_def Pair w1)
  next
    case (Inr primary)
    obtain r2 w2 where loop: "alternatives_loop L sp start_point end_point primary
        (slice_to weight_combinations (num_alternatives - 1)) [primary] w1 = (r2, w2)"
      by (cases "alternatives_loop L sp start_point end_point primary
        (slice_to weight_combinations (num_alternatives - 1)) [primary] w1")
    have "ROUTING_PARAMS w2 = ROUTING_PARAMS w1"
      using alternatives_loop_keeps_params [of L sp start_point end_point primary
        "slice_to weight_combinations (num_alternatives - 1)" "[primary]" w1]
      by (simp add: loop)
    then show ?thesis
      by (cases r2) (simp_all add: get_route_alternatives_def Pair Inr loop w1)
  qed
qed

theorem alternatives_restore_routing_params_witness:
  "ROUTING_PARAMS (snd (get_route_alternatives fixed_env cell_geometry direct_shortest_path
       one_street_router (0, 0) (0, 180) 3 (Some ''2024-06-21'') (Some ''13:00''))) =
   ROUTING_PARAMS one_street_router"
  by (rule alternatives_restore_routing_params)


lemma direct_shortest_path_contract: "no_path_raises direct_shortest_path"
  by (auto simp: no_path_raises_def direct_shortest_path_def path_exists_def)

text \<open>
  Claim C5. When no path of the graph joins the start node and the end node, the search
  under \<open>combined_weight\<close> raises \<open>NetworkXNoPath\<close>, the fallback search under
  \<open>length\<close> raises it again, and \<open>_find_optimal_route\<close> raises \<open>NetworkXNoPath\<close> to
  its caller: no default route is returned.
\<close>

theorem no_path_found:
  assumes "no_path_raises sp"
    and "start_node \<in> set (g_nodes G)" and "end_node \<in> set (g_nodes G)"
    and "\<not> path_exists G start_node end_node"
  shows "sp G start_node end_node by_combined_weight = Inl NetworkXNoPath \<and>
         sp G start_node end_node by_length = Inl NetworkXNoPath \<and>
         find_optimal_route sp G start_node end_node max_dist = Inl NetworkXNoPath"
proof -
  have raises: "sp G start_node end_node k = Inl NetworkXNoPath" for k
    using assms unfolding no_path_raises_def by blast
  then show ?thesis
    by (simp add: find_optimal_route_def)
qed

lemma no_street_disconnected: "\<not> path_exists no_street_graph (0, 0) (180, 0)"
  by (simp add: path_exists_def no_street_graph_def)

theorem no_path_found_witness:
  "no_path_raises (direct_shortest_path :: cells shortest_path) \<and>
   (0, 0) \<in> set (g_nodes no_street_graph) \<and> (180, 0) \<in> set (g_nodes no_street_graph) \<and>
   \<not> path_exists no_street_graph (0, 0) (180, 0) \<and>
   find_optimal_route direct_shortest_path no_street_graph (0, 0) (180, 0) None =
     Inl NetworkXNoPath"
proof -
  have n: "(0, 0) \<in> set (g_nodes no_street_graph)" "(180, 0) \<in> set (g_nodes no_street_graph)"
    by (simp_all add: no_street_graph_def)
  show ?thesis
    using no_path_found [OF direct_shortest_path_contract n no_street_disconnected, of None]
      direct_shortest_path_contract n no_street_disconnected
    by simp
qed

lemma nearest_scan_far:
  assumes "\<forall>n \<in> set ns. 1000 \<le> haversine_distance p n"
    and "case best of None \<Rightarrow> True | Some (m, n) \<Rightarrow> 1000 \<le> m"
  shows "case nearest_scan p ns best of None \<Rightarrow> True | Some (m, n) \<Rightarrow> 1000 \<le> m"
  using assms
proof (induction ns arbitrary: best)
  case Nil
  then show ?case by simp
next
  case (Cons n ns)
  then show ?case by (auto simp: Let_def split: option.splits)
qed

lemma find_nearest_node_far:
  assumes "\<forall>n \<in> set (g_nodes G). 1000 \<le> haversine_distance (snd point, fst point) n"
  shows "find_nearest_node G point = None"
  using nearest_scan_far [OF assms, of None]
  by (auto simp: find_nearest_node_def split: option.splits)

lemma nearest_scan_result:
  assumes "nearest_scan p ns best = Some (m, n)"
  shows "best = Some (m, n) \<or> (n \<in> set ns \<and> m = haversine_distance p n)"
  using assms
proof (induction ns arbitrary: best)
  case Nil
  then show ?case by simp
next
  case (Cons a ns)
  then show ?case by (fastforce simp: Let_def split: if_splits)
qed

lemma find_nearest_node_accepts:
  assumes "find_nearest_node G point = Some n"
  shows "n \<in> set (g_nodes G) \<and> haversine_distance (snd point, fst point) n < 1000"
  using assms nearest_scan_result [of "(snd point, fst point)" "g_nodes G" None]
  by (auto simp: find_nearest_node_def split: option.splits if_splits)

lemma haversine_antipode: "haversine_distance (180, 0) (0, 0) = 6371000 * pi"
  by (simp add: haversine_distance_def radians_def Let_def)

lemma haversine_antipode': "haversine_distance (0, 0) (180, 0) = 6371000 * pi"
  by (simp add: haversine_distance_def radians_def Let_def)

lemma haversine_self: "haversine_distance p p = 0"
  by (simp add: haversine_distance_def radians_def Let_def)

lemma antipode_far: "1000 < 6371000 * pi"
  using pi_ge_two by simp

lemma one_pm_sun:
  "calculate_sun_position (SunCalculator 0 0) d \<lparr>hour = 13, minute = 0\<rparr> =
     Inr \<lparr>elevation = 0, azimuth = 0,
          declination = calculate_declination (tm_yday (combine d \<lparr>hour = 18, minute = 0\<rparr>)),
          hour_angle = 90\<rparr>"
  by (simp add: calculate_sun_position_def local_to_utc_def SunCalculator_def combine_def
      replace_hour_def Let_def calculate_hour_angle_def calculate_elevation_def
      calculate_azimuth_def radians_def degrees_def tm_yday_def)

text \<open>
  Claim C6, as amended. A query first parses its date and time and computes the position
  of the sun, and fails there when one of these steps raises. For every query that passes
  them and whose start and end coordinates are each more than 1000 meters (haversine
  distance) from every node of the graph, \<open>_find_nearest_node\<close> returns no node for
  either end, and the query raises the \<open>ValueError\<close> of the missing node with the state
  unchanged: no edge has been scored, and the outcome does not depend on the geometry
  library or on the path search. A node is accepted only at a distance below 1000 meters.
\<close>

theorem far_endpoints_no_nearby_node:
  assumes "(case date of None \<Rightarrow> Inr (today env) | Some s \<Rightarrow> strptime_date env s) = Inr d"
    and "(case time_of_day of None \<Rightarrow> Inr \<lparr>hour = 12, minute = 0\<rparr>
                             | Some s \<Rightarrow> strptime_time env s) = Inr t"
    and "calculate_sun_position (sun_calc w) d t = Inr sun"
    and "\<forall>n \<in> set (g_nodes (graph w)).
           1000 < haversine_distance (snd start_point, fst start_point) n"
    and "\<forall>n \<in> set (g_nodes (graph w)).
           1000 < haversine_distance (snd end_point, fst end_point) n"
  shows "find_nearest_node (graph w) start_point = None \<and>
         find_nearest_node (graph w) end_point = None \<and>
         find_shadiest_route env L sp w start_point end_point date time_of_day max_dist =
           (Inl no_nearby_node, w) \<and>
         (\<forall>p n. find_nearest_node (graph w) p = Some n \<longrightarrow>
                haversine_distance (snd p, fst p) n < 1000)"
proof -
  have s: "find_nearest_node (graph w) start_point = None"
    using assms(4) by (intro find_nearest_node_far) (simp add: less_imp_le)
  have e: "find_nearest_node (graph w) end_point = None"
    using assms(5) by (intro find_nearest_node_far) (simp add: less_imp_le)
  have q: "find_shadiest_route env L sp w start_point end_point date time_of_day max_dist =
           (Inl no_nearby_node, w)"
    by (simp add: find_shadiest_route_def assms(1,2,3) s e)
  show ?thesis
    using s e q find_nearest_node_accepts by blast
qed

theorem far_endpoints_no_nearby_node_witness:
  "find_nearest_node (graph lone_node_router) (0, 180) = None \<and>
   find_shadiest_route fixed_env cell_geometry direct_shortest_path lone_node_router
       (0, 180) (0, 180) (Some ''2024-06-21'') (Some ''13:00'') None =
     (Inl no_nearby_node, lone_node_router)"
proof -
  have far: "\<forall>n \<in> set (g_nodes (graph lone_node_router)).
               1000 < haversine_distance (snd (0, 180), fst (0, 180)) n"
    using antipode_far by (simp add: lone_node_router_def haversine_antipode)
  have d: "(case Some ''2024-06-21'' of None \<Rightarrow> Inr (today fixed_env)
             | Some s \<Rightarrow> strptime_date fixed_env s) = Inr \<lparr>year = 2024, month = 6, day = 21\<rparr>"
    by (simp add: fixed_env_def)
  have t: "(case Some ''13:00'' of None \<Rightarrow> Inr \<lparr>hour = 12, minute = 0\<rparr>
             | Some s \<Rightarrow> strptime_time fixed_env s) = Inr \<lparr>hour = 13, minute = 0\<rparr>"
    by (simp add: fixed_env_def)
  have sun: "calculate_sun_position (sun_calc lone_node_router)
               \<lparr>year = 2024, month = 6, day = 21\<rparr> \<lparr>hour = 13, minute = 0\<rparr> =
             Inr \<lparr>elevation = 0, azimuth = 0,
                  declination = calculate_declination (tm_yday
                    (combine \<lparr>year = 2024, month = 6, day = 21\<rparr> \<lparr>hour = 18, minute = 0\<rparr>)),
                  hour_angle = 90\<rparr>"
    by (simp add: lone_node_router_def one_pm_sun)
  show ?thesis
    using far_endpoints_no_nearby_node [OF d t sun far far, of cell_geometry
        direct_shortest_path None]
    by simp
qed

text \<open>
  The claim as stated, for every query with far end points, fails: a query whose date
  does not parse raises the \<open>ValueError\<close> of the parser, before any node is looked up.
\<close>

theorem far_endpoints_bad_date_counterexample:
  "\<not> (\<forall>env (L :: cells shapely) sp w start_point end_point date time_of_day max_dist.
        (\<forall>n \<in> set (g_nodes (graph w)).
           1000 < haversine_distance (snd start_point, fst start_point) n) \<and>
        (\<forall>n \<in> set (g_nodes (graph w)).
           1000 < haversine_distance (snd end_point, fst end_point) n) \<longrightarrow>
        fst (find_shadiest_route env L sp w start_point end_point date time_of_day max_dist) =
          Inl no_nearby_node)"
proof
  assume claim: "\<forall>env (L :: cells shapely) sp w start_point end_point date time_of_day max_dist.
        (\<forall>n \<in> set (g_nodes (graph w)).
           1000 < haversine_distance (snd start_point, fst start_point) n) \<and>
        (\<forall>n \<in> set (g_nodes (graph w)).
           1000 < haversine_distance (snd end_point, fst end_point) n) \<longrightarrow>
        fst (find_shadiest_route env L sp w start_point end_point date time_of_day max_dist) =
          Inl no_nearby_node"
  have far: "\<forall>n \<in> set (g_nodes (graph lone_node_router)).
               1000 < haversine_distance (snd (0, 180), fst (0, 180)) n"
    using antipode_far by (simp add: lone_node_router_def haversine_antipode)
  have "fst (find_shadiest_route fixed_env cell_geometry direct_shortest_path lone_node_router
         (0, 180) (0, 180) (Some ''not-a-date'') (Some ''13:00'') None) =
        Inl (ValueError ''time data does not match format'')"
    by (simp add: find_shadiest_route_def fixed_env_def)
  moreover have "fst (find_shadiest_route fixed_env cell_geometry direct_shortest_path
         lone_node_router (0, 180) (0, 180) (Some ''not-a-date'') (Some ''13:00'') None) =
        Inl no_nearby_node"
    using claim far by blast
  ultimately show False
    by (simp add: no_nearby_node_def)
qed

section \<open>Properties of the graph construction\<close>

lemma same_edge_refl [simp]: "same_edge k k"
  by (simp add: same_edge_def)







lemma add_node_edges [simp]: "g_edges (add_node G n) = g_edges G"
  by (simp add: add_node_def)

lemma add_node_nodes [simp]: "set (g_nodes (add_node G n)) = insert n (set (g_nodes G))"
  by (auto simp: add_node_def)















text \<open>
  The rows must have the same columns: in a table where a later row over the same end
  points has a length, the edge carries that length.
\<close>

lemma later_row_sets_length:
  "\<exists>G d. create_routing_graph cell_geometry mixed_table = Inr G \<and>
     edge_lookup (g_edges G) (0, 0) (180, 0) = Some d \<and> edge_length d = 7"
  by (simp add: create_routing_graph_def mixed_table_def cell_geometry_def Let_def
      add_edge_def add_node_def row_get_def same_edge_def)

section \<open>Properties of the alternatives\<close>

lemma mset_insort_less: "mset (insort_less key x xs) = add_mset x (mset xs)"
  by (induction xs) simp_all

lemma mset_stable_sort: "mset (stable_sort key xs) = mset xs"
  by (induction xs) (simp_all add: stable_sort_def mset_insort_less)

lemma mset_sort_reverse: "mset (sort_reverse key xs) = mset xs"
  by (simp add: sort_reverse_def mset_stable_sort)

lemma np_less_NaN [simp]: "np_less x NaN = False"
  by (cases x) simp_all

lemma insort_less_NaN: "key x = NaN \<Longrightarrow> insort_less key x ys = x # ys"
  by (cases ys) simp_all

lemma stable_sort_all_NaN: "\<forall>x \<in> set xs. key x = NaN \<Longrightarrow> stable_sort key xs = xs"
  by (induction xs) (simp_all add: stable_sort_def insort_less_NaN)

lemma sort_reverse_all_NaN: "\<forall>x \<in> set xs. key x = NaN \<Longrightarrow> sort_reverse key xs = xs"
  by (simp add: sort_reverse_def stable_sort_all_NaN)

lemma np_less_num: "a \<noteq> NaN \<Longrightarrow> b \<noteq> NaN \<Longrightarrow> np_less a b = (num_of a < num_of b)"
  by (cases a; cases b) simp_all

lemma insort_less_numbers:
  "key x \<noteq> NaN \<Longrightarrow> \<forall>y \<in> set ys. key y \<noteq> NaN \<Longrightarrow>
   insort_less key x ys = insort_key (\<lambda>r. num_of (key r)) x ys"
  by (induction ys) (auto simp: np_less_num)

lemma stable_sort_numbers:
  "\<forall>x \<in> set xs. key x \<noteq> NaN \<Longrightarrow> stable_sort key xs = sort_key (\<lambda>r. num_of (key r)) xs"
proof (induction xs)
  case Nil
  then show ?case by (simp add: stable_sort_def)
next
  case (Cons x xs)
  then have "stable_sort key xs = sort_key (\<lambda>r. num_of (key r)) xs" by simp
  moreover have "\<forall>y \<in> set (sort_key (\<lambda>r. num_of (key r)) xs). key y \<noteq> NaN"
    using Cons.prems by simp
  ultimately show ?case
    using Cons.prems by (simp add: stable_sort_def insort_less_numbers)
qed

lemma sort_reverse_numbers:
  "\<forall>x \<in> set xs. key x \<noteq> NaN \<Longrightarrow>
   sort_reverse key xs = rev (sort_key (\<lambda>r. num_of (key r)) (rev xs))"
  by (simp add: sort_reverse_def stable_sort_numbers)

lemma sort_reverse_descending:
  assumes "(\<forall>x \<in> set xs. key x \<noteq> NaN) \<or> (\<forall>x \<in> set xs. key x = NaN)"
  shows "sorted_wrt (\<lambda>a b. \<not> np_less (key a) (key b)) (sort_reverse key xs)"
  using assms
proof
  assume nan: "\<forall>x \<in> set xs. key x = NaN"
  have "sorted_wrt (\<lambda>a b. \<not> np_less (key a) (key b)) xs"
    by (rule sorted_wrt_mono_rel [of xs "\<lambda>a b. True"]) (simp_all add: nan)
  then show ?thesis by (simp add: sort_reverse_all_NaN nan)
next
  assume num: "\<forall>x \<in> set xs. key x \<noteq> NaN"
  let ?f = "\<lambda>r. num_of (key r)"
  let ?ys = "sort_key ?f (rev xs)"
  have "sorted (map ?f ?ys)" by (rule sorted_sort_key)
  then have "sorted_wrt (\<lambda>a b. ?f a \<le> ?f b) ?ys"
    by (simp add: sorted_map)
  then have "sorted_wrt (\<lambda>a b. ?f b \<le> ?f a) (rev ?ys)"
    by (simp add: sorted_wrt_rev)
  then have "sorted_wrt (\<lambda>a b. \<not> np_less (key a) (key b)) (rev ?ys)"
  proof (rule sorted_wrt_mono_rel [rotated])
    fix a b assume "a \<in> set (rev ?ys)" "b \<in> set (rev ?ys)" "?f b \<le> ?f a"
    then show "\<not> np_less (key a) (key b)"
      using num by (simp add: np_less_num)
  qed
  then show ?thesis by (simp add: sort_reverse_numbers num)
qed

lemma sort_reverse_stable:
  assumes "(\<forall>x \<in> set xs. key x \<noteq> NaN) \<or> (\<forall>x \<in> set xs. key x = NaN)"
  shows "filter (\<lambda>r. key r = k) (sort_reverse key xs) = filter (\<lambda>r. key r = k) xs"
  using assms
proof
  assume "\<forall>x \<in> set xs. key x = NaN"
  then show ?thesis by (simp add: sort_reverse_all_NaN)
next
  assume num: "\<forall>x \<in> set xs. key x \<noteq> NaN"
  let ?f = "\<lambda>r. num_of (key r)"
  show ?thesis
  proof (cases k)
    case NaN
    have "filter (\<lambda>r. key r = NaN) (sort_reverse key xs) = []"
      using num by (simp add: sort_reverse_numbers filter_empty_conv)
    moreover have "filter (\<lambda>r. key r = NaN) xs = []"
      using num by (simp add: filter_empty_conv)
    ultimately show ?thesis by (simp add: NaN)
  next
    case (Num c)
    have eq: "\<And>zs. \<forall>x \<in> set zs. key x \<noteq> NaN \<Longrightarrow>
               filter (\<lambda>r. key r = Num c) zs = filter (\<lambda>r. ?f r = c) zs"
    proof (rule filter_cong [OF refl])
      fix zs x assume "\<forall>x \<in> set zs. key x \<noteq> NaN" "x \<in> set zs"
      then have "key x \<noteq> NaN" by simp
      then show "(key x = Num c) = (?f x = c)" by (cases "key x") simp_all
    qed
    have "filter (\<lambda>r. key r = Num c) (sort_reverse key xs) =
          filter (\<lambda>r. ?f r = c) (rev (sort_key ?f (rev xs)))"
      using num by (simp add: sort_reverse_numbers eq)
    also have "\<dots> = rev (filter (\<lambda>r. ?f r = c) (sort_key ?f (rev xs)))"
      by (simp add: rev_filter)
    also have "\<dots> = rev (filter (\<lambda>r. ?f r = c) (rev xs))"
      by (simp only: sort_key_stable)
    also have "\<dots> = filter (\<lambda>r. ?f r = c) xs"
      by (simp add: rev_filter)
    also have "\<dots> = filter (\<lambda>r. key r = Num c) xs"
      using num by (simp add: eq)
    finally show ?thesis by (simp add: Num)
  qed
qed

lemma find_shadiest_route_nodes:
  assumes "find_shadiest_route env L sp w start_point end_point date time_of_day max_dist =
             (Inr r, w1)"
  shows "\<exists>s t. find_nearest_node (graph w1) start_point = Some s \<and>
               find_nearest_node (graph w1) end_point = Some t"
  using assms
  by (auto simp: find_shadiest_route_def Let_def split: sum.splits option.splits)

lemma alternative_route_found:
  assumes "find_nearest_node (graph w) start_point = Some s"
    and "find_nearest_node (graph w) end_point = Some t"
    and "alternative_route L sp w start_point end_point primary blend = (Inr x, w2)"
  shows "\<exists>alt. x = Some alt \<and> weight_combination alt = Some blend \<and>
           find_nearest_node (graph w2) start_point = Some s \<and>
           find_nearest_node (graph w2) end_point = Some t"
  using assms
  by (auto simp: alternative_route_def Let_def with_metadata_def split: sum.splits)

lemma alternatives_loop_appends:
  assumes "find_nearest_node (graph w) start_point = Some s"
    and "find_nearest_node (graph w) end_point = Some t"
    and "alternatives_loop L sp start_point end_point primary blends alts w = (Inr cands, w')"
  shows "\<exists>new. cands = alts @ new \<and> map weight_combination new = map Some blends"
  using assms
proof (induction blends arbitrary: alts w)
  case Nil
  then show ?case by simp
next
  case (Cons blend blends)
  obtain shade_w time_w where blend: "blend = (shade_w, time_w)" by (cases blend)
  let ?w1 = "w\<lparr>ROUTING_PARAMS :=
                 (ROUTING_PARAMS w)\<lparr>shade_weight := shade_w, time_weight := time_w\<rparr>\<rparr>"
  obtain x w2 where tried:
    "alternative_route L sp ?w1 start_point end_point primary (shade_w, time_w) = (x, w2)"
    by (cases "alternative_route L sp ?w1 start_point end_point primary (shade_w, time_w)")
  let ?w3 = "w2\<lparr>ROUTING_PARAMS :=
                 (ROUTING_PARAMS w2)\<lparr>shade_weight := shade_weight (ROUTING_PARAMS w),
                                      time_weight := time_weight (ROUTING_PARAMS w)\<rparr>\<rparr>"
  from Cons.prems(3) obtain y where x: "x = Inr y"
    unfolding blend by (cases x) (simp_all add: Let_def tried)
  have s1: "find_nearest_node (graph ?w1) start_point = Some s"
    and t1: "find_nearest_node (graph ?w1) end_point = Some t"
    using Cons.prems(1,2) by simp_all
  from alternative_route_found [OF s1 t1 tried [unfolded x]]
  obtain alt where alt: "y = Some alt" "weight_combination alt = Some (shade_w, time_w)"
    and s2: "find_nearest_node (graph w2) start_point = Some s"
    and t2: "find_nearest_node (graph w2) end_point = Some t"
    by blast
  have s3: "find_nearest_node (graph ?w3) start_point = Some s"
    and t3: "find_nearest_node (graph ?w3) end_point = Some t"
    using s2 t2 by simp_all
  have rest: "alternatives_loop L sp start_point end_point primary blends (alts @ [alt]) ?w3 =
              (Inr cands, w')"
    using Cons.prems(3) unfolding blend by (simp add: Let_def tried x alt)
  from Cons.IH [OF s3 t3 rest] obtain new where
    "cands = (alts @ [alt]) @ new" "map weight_combination new = map Some blends"
    by blast
  then have "cands = alts @ (alt # new) \<and>
             map weight_combination (alt # new) = map Some (blend # blends)"
    by (simp add: alt blend)
  then show ?case by blast
qed

text \<open>
  Claim C7. When \<open>get_route_alternatives\<close> returns, the candidates it generated are the
  primary route followed by one route for each blend of \<open>weight_combinations[:num_alternatives - 1]\<close>,
  in that order and tagged with its blend, and the returned list is a permutation of
  them. Whenever the scores can be compared (no \<open>average_shade_score\<close> is \<open>nan\<close>, or
  all are, which is the case when the start and the end node coincide and no route has
  an edge), the list is in descending order of \<open>average_shade_score\<close>, and routes with
  the same score keep the order in which they were generated.
\<close>

theorem alternatives_sorted_stable_permutation:
  assumes "get_route_alternatives env L sp w start_point end_point num_alternatives
             date time_of_day = (Inr result, w')"
  shows "\<exists>primary_route w1 alts.
           find_shadiest_route env L sp w start_point end_point date time_of_day None =
             (Inr primary_route, w1) \<and>
           alternatives_loop L sp start_point end_point primary_route
             (slice_to weight_combinations (num_alternatives - 1)) [primary_route] w1 =
             (Inr (primary_route # alts), w') \<and>
           map weight_combination alts =
             map Some (slice_to weight_combinations (num_alternatives - 1)) \<and>
           mset result = mset (primary_route # alts) \<and>
           ((\<forall>r \<in> set result. average_shade_score r \<noteq> NaN) \<or>
            (\<forall>r \<in> set result. average_shade_score r = NaN) \<longrightarrow>
            sorted_wrt (\<lambda>a b. \<not> np_less (average_shade_score a) (average_shade_score b)) result \<and>
            (\<forall>k. filter (\<lambda>r. average_shade_score r = k) result =
                 filter (\<lambda>r. average_shade_score r = k) (primary_route # alts)))"
proof -
  let ?blends = "slice_to weight_combinations (num_alternatives - 1)"
  obtain r1 w1 where first:
    "find_shadiest_route env L sp w start_point end_point date time_of_day None = (r1, w1)"
    by (cases "find_shadiest_route env L sp w start_point end_point date time_of_day None")
  from assms obtain primary_route where r1: "r1 = Inr primary_route"
    by (cases r1) (simp_all add: get_route_alternatives_def first)
  obtain r2 w2 where loop:
    "alternatives_loop L sp start_point end_point primary_route ?blends [primary_route] w1 =
       (r2, w2)"
    by (cases "alternatives_loop L sp start_point end_point primary_route ?blends
                 [primary_route] w1")
  from assms obtain cands where r2: "r2 = Inr cands"
    and result: "result = sort_reverse average_shade_score cands" and w2: "w2 = w'"
    by (cases r2) (auto simp: get_route_alternatives_def first r1 loop)
  from find_shadiest_route_nodes [OF first [unfolded r1]] obtain s t where
    "find_nearest_node (graph w1) start_point = Some s"
    "find_nearest_node (graph w1) end_point = Some t"
    by blast
  from alternatives_loop_appends [OF this loop [unfolded r2]] obtain alts where
    cands: "cands = primary_route # alts"
    and tags: "map weight_combination alts = map Some ?blends"
    by auto
  have perm: "mset result = mset (primary_route # alts)"
    by (simp add: result cands mset_sort_reverse)
  have "set_mset (mset result) = set_mset (mset cands)"
    using perm cands by simp
  then have keys: "set result = set cands"
    by simp
  have sorted_stable:
    "sorted_wrt (\<lambda>a b. \<not> np_less (average_shade_score a) (average_shade_score b)) result \<and>
     (\<forall>k. filter (\<lambda>r. average_shade_score r = k) result =
          filter (\<lambda>r. average_shade_score r = k) (primary_route # alts))"
    if "(\<forall>r \<in> set result. average_shade_score r \<noteq> NaN) \<or>
        (\<forall>r \<in> set result. average_shade_score r = NaN)"
  proof -
    have cmp: "(\<forall>r \<in> set cands. average_shade_score r \<noteq> NaN) \<or>
               (\<forall>r \<in> set cands. average_shade_score r = NaN)"
      using that unfolding keys .
    have "sorted_wrt (\<lambda>a b. \<not> np_less (average_shade_score a) (average_shade_score b))
            (sort_reverse average_shade_score cands)"
      by (rule sort_reverse_descending [OF cmp])
    moreover have "\<forall>k. filter (\<lambda>r. average_shade_score r = k)
                          (sort_reverse average_shade_score cands) =
                       filter (\<lambda>r. average_shade_score r = k) cands"
      by (intro allI sort_reverse_stable [OF cmp])
    ultimately show ?thesis
      unfolding result cands by (rule conjI)
  qed
  have a: "find_shadiest_route env L sp w start_point end_point date time_of_day None =
             (Inr primary_route, w1)"
    using first r1 by simp
  have b: "alternatives_loop L sp start_point end_point primary_route ?blends [primary_route] w1 =
             (Inr (primary_route # alts), w')"
    using loop r2 w2 cands by simp
  show ?thesis
    apply (rule exI [of _ primary_route])
    apply (rule exI [of _ w1])
    apply (rule exI [of _ alts])
    apply (rule conjI, rule a)
    apply (rule conjI, rule b)
    apply (rule conjI, rule tags)
    apply (rule conjI, rule perm)
    apply (rule impI)
    apply (erule sorted_stable)
    done
qed

text \<open>The query on the router with one street, evaluated with the direct path search.\<close>

lemma one_street_near_start: "find_nearest_node one_street_graph (0, 0) = Some (0, 0)"
  by (simp add: find_nearest_node_def one_street_graph_def haversine_self haversine_antipode'
      Let_def mult_less_0_iff)

lemma one_street_near_end: "find_nearest_node one_street_graph (0, 180) = Some (180, 0)"
  by (simp add: find_nearest_node_def one_street_graph_def haversine_self haversine_antipode
      Let_def zero_less_mult_iff)

lemma edge_lookup_scored:
  "edge_lookup (g_edges (graph (calculate_edge_shade_scores L sun w))) u v =
   map_option (score_edge L w sun) (edge_lookup (g_edges (graph w)) u v)"
proof -
  have "edge_lookup (map (\<lambda>(k, d). (k, f d)) es) u v = map_option f (edge_lookup es u v)"
    for f :: "'a edge_data \<Rightarrow> 'a edge_data" and es
    by (induction es) auto
  then show ?thesis
    by (simp add: calculate_edge_shade_scores_def)
qed

lemma direct_route:
  assumes "edge_lookup (g_edges G) s t = Some d"
    and "s \<in> set (g_nodes G)" and "t \<in> set (g_nodes G)" and "s \<noteq> t"
  shows "\<exists>ri. find_optimal_route direct_shortest_path G s t max_dist = Inr ri \<and>
              length (edges ri) = 1"
  using assms by (simp add: find_optimal_route_def direct_shortest_path_def)

lemma with_metadata_average:
  "length (edges ri) = 1 \<Longrightarrow> average_shade_score (with_metadata ri a b d t sun blend) \<noteq> NaN"
  by (auto simp: with_metadata_def np_mean_def)

text \<open>What stays true of the state while a query runs with the direct path search.\<close>

lemma alternative_route_direct:
  assumes "find_nearest_node (graph w) start_point = Some s"
    and "find_nearest_node (graph w) end_point = Some t"
    and "edge_lookup (g_edges (graph w)) s t \<noteq> None" and "s \<noteq> t"
  shows "\<exists>alt w2. alternative_route L direct_shortest_path w start_point end_point primary blend =
             (Inr (Some alt), w2) \<and> average_shade_score alt \<noteq> NaN \<and>
           find_nearest_node (graph w2) start_point = Some s \<and>
           find_nearest_node (graph w2) end_point = Some t \<and>
           edge_lookup (g_edges (graph w2)) s t \<noteq> None"
proof -
  let ?w' = "calculate_edge_shade_scores L (route_sun_position primary) w"
  have nodes: "s \<in> set (g_nodes (graph ?w'))" "t \<in> set (g_nodes (graph ?w'))"
    using find_nearest_node_accepts [OF assms(1)] find_nearest_node_accepts [OF assms(2)]
    by simp_all
  from assms(3) obtain d where "edge_lookup (g_edges (graph ?w')) s t = Some d"
    by (auto simp: edge_lookup_scored)
  from direct_route [OF this nodes assms(4)] obtain ri where
    ri: "find_optimal_route direct_shortest_path (graph ?w') s t None = Inr ri"
    and one: "length (edges ri) = 1"
    by blast
  show ?thesis
    using assms(1,2,3) with_metadata_average [OF one]
    by (simp add: alternative_route_def Let_def ri edge_lookup_scored)
qed

lemma alternatives_loop_direct:
  assumes "find_nearest_node (graph w) start_point = Some s"
    and "find_nearest_node (graph w) end_point = Some t"
    and "edge_lookup (g_edges (graph w)) s t \<noteq> None" and "s \<noteq> t"
    and "\<forall>r \<in> set alts. average_shade_score r \<noteq> NaN"
  shows "\<exists>cands w'. alternatives_loop L direct_shortest_path start_point end_point primary
             blends alts w = (Inr cands, w') \<and>
           (\<forall>r \<in> set cands. average_shade_score r \<noteq> NaN)"
  using assms(1,2,3,5)
proof (induction blends arbitrary: alts w)
  case Nil
  then show ?case by simp
next
  case (Cons blend blends)
  obtain shade_w time_w where blend: "blend = (shade_w, time_w)" by (cases blend)
  let ?w1 = "w\<lparr>ROUTING_PARAMS :=
                 (ROUTING_PARAMS w)\<lparr>shade_weight := shade_w, time_weight := time_w\<rparr>\<rparr>"
  have "find_nearest_node (graph ?w1) start_point = Some s"
    "find_nearest_node (graph ?w1) end_point = Some t"
    "edge_lookup (g_edges (graph ?w1)) s t \<noteq> None"
    using Cons.prems(1,2,3) by simp_all
  from alternative_route_direct [OF this assms(4), of L primary "(shade_w, time_w)"]
  obtain alt w2 where tried:
    "alternative_route L direct_shortest_path ?w1 start_point end_point primary (shade_w, time_w) =
       (Inr (Some alt), w2)"
    and alt: "average_shade_score alt \<noteq> NaN"
    and inv: "find_nearest_node (graph w2) start_point = Some s"
      "find_nearest_node (graph w2) end_point = Some t"
      "edge_lookup (g_edges (graph w2)) s t \<noteq> None"
    by blast
  let ?w3 = "w2\<lparr>ROUTING_PARAMS :=
                 (ROUTING_PARAMS w2)\<lparr>shade_weight := shade_weight (ROUTING_PARAMS w),
                                      time_weight := time_weight (ROUTING_PARAMS w)\<rparr>\<rparr>"
  have inv3: "find_nearest_node (graph ?w3) start_point = Some s"
    "find_nearest_node (graph ?w3) end_point = Some t"
    "edge_lookup (g_edges (graph ?w3)) s t \<noteq> None"
    using inv by simp_all
  have keys: "\<forall>r \<in> set (alts @ [alt]). average_shade_score r \<noteq> NaN"
    using Cons.prems(4) alt by simp
  have "alternatives_loop L direct_shortest_path start_point end_point primary (blend # blends)
          alts w =
        alternatives_loop L direct_shortest_path start_point end_point primary blends
          (alts @ [alt]) ?w3"
    unfolding blend by (simp add: Let_def tried)
  then show ?case
    using Cons.IH [OF inv3 keys] by simp
qed

lemma one_street_primary:
  "\<exists>p w1. find_shadiest_route fixed_env L direct_shortest_path one_street_router
       (0, 0) (0, 180) (Some ''2024-06-21'') (Some ''13:00'') None = (Inr p, w1) \<and>
     average_shade_score p \<noteq> NaN \<and>
     find_nearest_node (graph w1) (0, 0) = Some (0, 0) \<and>
     find_nearest_node (graph w1) (0, 180) = Some (180, 0) \<and>
     edge_lookup (g_edges (graph w1)) (0, 0) (180, 0) \<noteq> None"
proof -
  let ?d = "\<lparr>year = 2024, month = 6, day = 21\<rparr>"
  let ?sun = "\<lparr>elevation = 0, azimuth = 0,
               declination = calculate_declination (tm_yday (combine ?d \<lparr>hour = 18, minute = 0\<rparr>)),
               hour_angle = 90\<rparr>"
  let ?w' = "calculate_edge_shade_scores L ?sun one_street_router"
  have g: "graph one_street_router = one_street_graph"
    and sc: "sun_calc one_street_router = SunCalculator 0 0"
    by (simp_all add: one_street_router_def)
  have edge: "edge_lookup (g_edges one_street_graph) (0, 0) (180, 0) \<noteq> None"
    by (simp add: one_street_graph_def same_edge_def)
  then obtain e where e: "edge_lookup (g_edges (graph ?w')) (0, 0) (180, 0) = Some e"
    by (auto simp: edge_lookup_scored g)
  have nodes: "(0, 0) \<in> set (g_nodes (graph ?w'))" "(180, 0) \<in> set (g_nodes (graph ?w'))"
    by (simp_all add: g one_street_graph_def)
  have "(0 :: real, 0 :: real) \<noteq> (180, 0)" by simp
  from direct_route [OF e nodes this] obtain ri where
    ri: "find_optimal_route direct_shortest_path (graph ?w') (0, 0) (180, 0) None = Inr ri"
    and one: "length (edges ri) = 1"
    by blast
  have "find_shadiest_route fixed_env L direct_shortest_path one_street_router
       (0, 0) (0, 180) (Some ''2024-06-21'') (Some ''13:00'') None =
       (Inr (with_metadata ri (0, 0) (0, 180) ?d \<lparr>hour = 13, minute = 0\<rparr> ?sun None), ?w')"
    by (simp add: find_shadiest_route_def fixed_env_def sc g one_pm_sun
        one_street_near_start one_street_near_end Let_def ri)
  then show ?thesis
    using with_metadata_average [OF one] e
    by (simp add: g one_street_near_start one_street_near_end)
qed

theorem alternatives_sorted_stable_permutation_witness:
  "\<exists>result w'.
     get_route_alternatives fixed_env cell_geometry direct_shortest_path one_street_router
       (0, 0) (0, 180) 3 (Some ''2024-06-21'') (Some ''13:00'') = (Inr result, w') \<and>
     length result = 3 \<and>
     sorted_wrt (\<lambda>a b. \<not> np_less (average_shade_score a) (average_shade_score b)) result"
proof -
  let ?blends = "slice_to weight_combinations 2"
  have two: "(3 :: int) - 1 = 2" by simp
  from one_street_primary [of cell_geometry] obtain p w1 where
    first: "find_shadiest_route fixed_env cell_geometry direct_shortest_path one_street_router
       (0, 0) (0, 180) (Some ''2024-06-21'') (Some ''13:00'') None = (Inr p, w1)"
    and p: "average_shade_score p \<noteq> NaN"
    and inv: "find_nearest_node (graph w1) (0, 0) = Some (0, 0)"
      "find_nearest_node (graph w1) (0, 180) = Some (180, 0)"
      "edge_lookup (g_edges (graph w1)) (0, 0) (180, 0) \<noteq> None"
    by blast
  have ne: "(0 :: real, 0 :: real) \<noteq> (180, 0)" by simp
  have keys0: "\<forall>r \<in> set [p]. average_shade_score r \<noteq> NaN" using p by simp
  from alternatives_loop_direct [OF inv ne keys0, of cell_geometry p ?blends]
  obtain cands w' where
    loop: "alternatives_loop cell_geometry direct_shortest_path (0, 0) (0, 180) p ?blends [p] w1 =
           (Inr cands, w')"
    and keys: "\<forall>r \<in> set cands. average_shade_score r \<noteq> NaN"
    by blast
  let ?result = "sort_reverse average_shade_score cands"
  have run: "get_route_alternatives fixed_env cell_geometry direct_shortest_path one_street_router
       (0, 0) (0, 180) 3 (Some ''2024-06-21'') (Some ''13:00'') = (Inr ?result, w')"
    by (simp add: get_route_alternatives_def first loop)
  have "set_mset (mset ?result) = set_mset (mset cands)"
    by (simp only: mset_sort_reverse)
  then have numbers: "\<forall>r \<in> set ?result. average_shade_score r \<noteq> NaN"
    using keys by simp
  from alternatives_sorted_stable_permutation [OF run, unfolded two] obtain primary_route alts where
    tags: "map weight_combination alts = map Some ?blends"
    and perm: "mset ?result = mset (primary_route # alts)"
    and sorted: "(\<forall>r \<in> set ?result. average_shade_score r \<noteq> NaN) \<or>
            (\<forall>r \<in> set ?result. average_shade_score r = NaN) \<longrightarrow>
            sorted_wrt (\<lambda>a b. \<not> np_less (average_shade_score a) (average_shade_score b)) ?result"
    by blast
  have "length alts = length ?blends"
    using tags by (metis length_map)
  then have "length alts = 2"
    by (simp add: slice_to_def weight_combinations_def)
  moreover have "length ?result = length (primary_route # alts)"
    using perm by (metis size_mset)
  ultimately have "length ?result = 3" by simp
  then show ?thesis
    using run sorted numbers by blast
qed

section \<open>Queries between nodes that no path joins\<close>

lemma path_exists_scored:
  "path_exists (graph (calculate_edge_shade_scores L sun w)) s t = path_exists (graph w) s t"
  by (simp add: path_exists_def edge_lookup_scored)

text \<open>
  The exception of the path search is the exception of the query: a query whose two
  nearest nodes are joined by no path raises \<open>NetworkXNoPath\<close>, after the edges have
  been scored.
\<close>

lemma query_without_path_raises:
  assumes "no_path_raises sp"
    and "(case date of None \<Rightarrow> Inr (today env) | Some s \<Rightarrow> strptime_date env s) = Inr d"
    and "(case time_of_day of None \<Rightarrow> Inr \<lparr>hour = 12, minute = 0\<rparr>
                             | Some s \<Rightarrow> strptime_time env s) = Inr t"
    and "calculate_sun_position (sun_calc w) d t = Inr sun"
    and "find_nearest_node (graph w) start_point = Some start_node"
    and "find_nearest_node (graph w) end_point = Some end_node"
    and "\<not> path_exists (graph w) start_node end_node"
  shows "find_shadiest_route env L sp w start_point end_point date time_of_day max_dist =
           (Inl NetworkXNoPath, calculate_edge_shade_scores L sun w)"
proof -
  let ?w' = "calculate_edge_shade_scores L sun w"
  have nodes: "start_node \<in> set (g_nodes (graph ?w'))" "end_node \<in> set (g_nodes (graph ?w'))"
    using find_nearest_node_accepts [OF assms(5)] find_nearest_node_accepts [OF assms(6)]
    by simp_all
  have "\<not> path_exists (graph ?w') start_node end_node"
    using assms(7) by (simp add: path_exists_scored)
  then have raises: "sp (graph ?w') start_node end_node k = Inl NetworkXNoPath" for k
    using assms(1) nodes unfolding no_path_raises_def by blast
  have "find_optimal_route sp (graph ?w') start_node end_node max_dist = Inl NetworkXNoPath"
    by (simp add: find_optimal_route_def raises)
  then show ?thesis
    by (simp add: find_shadiest_route_def assms(2-6) Let_def)
qed

end
